theory Spec2Isabelle
  imports Main "HOL-Library.Word"
begin

unbundle bit_operations_syntax

section \<open>The emulator's virtual memory manager (clamemu/vmm.c)\<close>

text \<open>
  A shallow embedding of \<^verbatim>\<open>src/clamemu/vmm.c\<close>. Every C function of the file is a HOL
  function of the same name; the mutable \<^verbatim>\<open>emu_vmm_t\<close> is passed in and returned.
  Pointers into \<^verbatim>\<open>v->cached\<close> and \<^verbatim>\<open>v->page_flags\<close> are indices into the two arrays,
  \<^verbatim>\<open>NULL\<close> is \<open>None\<close>.
\<close>

type_synonym byte = "8 word"
type_synonym u32 = "32 word"

subsection \<open>Names declared in vmm.h\<close>

text \<open>
  Modelled from the spec: the enum \<^verbatim>\<open>flag_r, flag_w, flag_x\<close> of vmm.h is not part of the
  sources at hand. The permissions are a bitset of read, write and execute, held in the
  3-bit field \<^verbatim>\<open>flag_rwx\<close>; the three names are three distinct bit positions of it.
\<close>

definition flag_r :: nat where "flag_r = 0"
definition flag_w :: nat where "flag_w = 1"
definition flag_x :: nat where "flag_x = 2"

text \<open>
  The error codes of vmm.h that vmm.c returns (negated). Only their names are used: the
  functions below return the name, not a number.
\<close>

datatype emu_err = EMU_ERR_GENERIC | EMU_ERR_VMM_READ | EMU_ERR_VMM_WRITE

text \<open>
  An execution either returns, or reaches a point where the C text indexes an array
  outside its bounds, for which C defines no behaviour.
\<close>

datatype 'a outcome = Returns 'a | Undefined

subsection \<open>Data\<close>

definition MINALIGN :: nat where "MINALIGN = 512"

text \<open>
  \<^verbatim>\<open>page_t\<close>: a packed word of bit fields. \<open>file_offset\<close> has 23 bits and counts
  \<open>MINALIGN\<close> blocks, \<open>flag_rwx\<close> has 3 bits, \<open>cached_page_idx\<close> has 4 bits
  (0: not cached, 1 to 15: cache index plus one, as its comment says).
\<close>

record page_t =
  file_offset :: nat
  flag_rwx :: "3 word"
  modified :: bool
  init :: bool
  cached_page_idx :: nat

text \<open>
  \<^verbatim>\<open>cached_page_t\<close>. The 4096 bytes of \<open>data\<close> are a function from the index; only
  indices below 4096 are read or written. \<open>loaded\<close> is a ghost field with no counterpart
  in C: the index of the page-table entry handed to \<^verbatim>\<open>vmm_pagein\<close> when the slot was last
  filled. No operation reads it.
\<close>

record cached_page_t =
  cflag_rwx :: byte
  dirty :: bool
  data :: "nat \<Rightarrow> byte"
  loaded :: "nat option"

text \<open>What is behind a file descriptor: a size and the bytes.\<close>

record vfile =
  fsize :: nat
  fbytes :: "nat \<Rightarrow> byte"

text \<open>
  \<^verbatim>\<open>struct emu_vmm\<close>. \<open>infd\<close> is the file behind the input descriptor, \<open>tmpfd\<close> the
  temporary file, \<open>None\<close> for the descriptor \<open>-1\<close>. The name of the temporary file is
  left out. \<open>lastused_page\<close> and \<open>tmpfd_written\<close> are 32-bit unsigned values.
\<close>

record emu_vmm =
  cached :: "cached_page_t list"
  cached_idx :: nat
  lastused_page :: nat
  lastused_page_idx :: nat
  imagebase :: u32
  page_flags :: "page_t list"
  n_pages :: nat
  infd :: vfile
  tmpfd :: "vfile option"
  tmpfd_written :: nat

text \<open>
  The operating system as the code meets it: whether a \<^verbatim>\<open>pread\<close> returns \<open>-1\<close> (asked
  of the temporary file or not, at a byte offset), whether a \<^verbatim>\<open>pwrite\<close> at a byte offset
  writes nothing, and whether \<^verbatim>\<open>cli_gentempfd\<close> leaves the descriptor at \<open>-1\<close>.
\<close>

record emu_io =
  pread_fails :: "bool \<Rightarrow> nat \<Rightarrow> bool"
  pwrite_fails :: "nat \<Rightarrow> bool"
  gentempfd_fails :: bool

text \<open>The fields of \<^verbatim>\<open>struct cli_exe_section\<close> that vmm.c reads.\<close>

record cli_exe_section =
  rva :: u32
  vsz :: u32
  raw :: u32
  chr :: u32
  urva :: u32

text \<open>
  The fields of \<^verbatim>\<open>struct cli_pe_hook_data\<close> that decide anything: \<open>Machine\<close> is
  \<^verbatim>\<open>file_hdr.Machine\<close>, \<open>Magic\<close> is \<^verbatim>\<open>le16_to_host(opt64.Magic)\<close>, \<open>ImageBase\<close> is
  \<^verbatim>\<open>opt32.ImageBase\<close>. The two alignments are only logged. \<^verbatim>\<open>nsections\<close> is the
  length of the list of sections.
\<close>

record cli_pe_hook_data =
  Machine :: "16 word"
  Magic :: "16 word"
  ImageBase :: u32

definition IMAGE_SCN_CNT_UNINITIALIZED_DATA :: u32 where
  "IMAGE_SCN_CNT_UNINITIALIZED_DATA = 128"
definition IMAGE_SCN_MEM_EXECUTE :: u32 where "IMAGE_SCN_MEM_EXECUTE = 0x20000000"
definition IMAGE_SCN_MEM_READ :: u32 where "IMAGE_SCN_MEM_READ = 0x40000000"
definition IMAGE_SCN_MEM_WRITE :: u32 where "IMAGE_SCN_MEM_WRITE = 0x80000000"

subsection \<open>The system calls\<close>

text \<open>
  \<^verbatim>\<open>pread(fd, buf, 4096, off)\<close> when it does not fail: the bytes the file has from \<open>off\<close>
  on are copied, the rest of the buffer keeps what it held.
\<close>

definition pread :: "vfile \<Rightarrow> (nat \<Rightarrow> byte) \<Rightarrow> nat \<Rightarrow> (nat \<Rightarrow> byte)" where
  "pread f buf off = (\<lambda>i. if i < 4096 \<and> off + i < fsize f then fbytes f (off + i) else buf i)"

text \<open>\<^verbatim>\<open>pwrite(fd, buf, 4096, off)\<close> when it does not fail; a hole reads as zero.\<close>

definition pwrite :: "vfile \<Rightarrow> (nat \<Rightarrow> byte) \<Rightarrow> nat \<Rightarrow> vfile" where
  "pwrite f buf off =
     \<lparr>fsize = max (fsize f) (off + 4096),
      fbytes = (\<lambda>i. if off \<le> i \<and> i < off + 4096 then buf (i - off)
                     else if i < fsize f then fbytes f i else 0)\<rparr>"

definition empty_file :: vfile where
  "empty_file = \<lparr>fsize = 0, fbytes = (\<lambda>i. 0)\<rparr>"

subsection \<open>Mapping the sections\<close>

text \<open>
  The first loop of \<^verbatim>\<open>map_pages\<close>: the pages of the file header. \<open>i\<close> and \<open>i*4096\<close> are
  32-bit unsigned. The loop has no test of \<open>i\<close> against the size of the table.
\<close>

function map_header :: "page_t list \<Rightarrow> nat \<Rightarrow> u32 \<Rightarrow> page_t list outcome" where
  "map_header pf i rva0 =
     (if (i * 4096) mod 2 ^ 32 < unat rva0 then
        (if i < length pf then
           map_header
             (pf[i := (pf ! i)\<lparr>file_offset := ((i * 4096) mod 2 ^ 32) div MINALIGN,
                                flag_rwx := push_bit flag_r 1\<rparr>])
             (i + 1) rva0
         else Undefined)
      else Returns pf)"
  by pat_completeness auto
termination
  by (relation "measure (\<lambda>(pf, i, rva0). length pf - i)") auto

declare map_header.simps [simp del]

definition section_flags :: "u32 \<Rightarrow> 3 word" where
  "section_flags c =
     (if c AND IMAGE_SCN_MEM_EXECUTE \<noteq> 0 then push_bit flag_x 1 else 0) OR
     (if c AND IMAGE_SCN_MEM_READ \<noteq> 0 then push_bit flag_r 1 else 0) OR
     (if c AND IMAGE_SCN_MEM_WRITE \<noteq> 0 then push_bit flag_w 1 else 0)"

text \<open>
  The inner loop of \<^verbatim>\<open>map_pages\<close> over the pages of one section, from \<open>j\<close> on. \<open>None\<close> is
  the return of \<open>-1\<close>.
\<close>

function map_section :: "emu_vmm \<Rightarrow> cli_exe_section \<Rightarrow> nat \<Rightarrow> emu_vmm option outcome" where
  "map_section v s j =
     (if j < unat ((vsz s + 4095) div 4096) then
        (let page = unat (rva s div 4096 + of_nat j);
             zeroinit = (chr s AND IMAGE_SCN_CNT_UNINITIALIZED_DATA \<noteq> 0)
         in if page \<ge> n_pages v then Returns None
            else if \<not> page < length (page_flags v) then Undefined
            else
              let p = page_flags v ! page;
                  p1 = p\<lparr>init := \<not> zeroinit\<rparr>;
                  p2 = (if \<not> zeroinit
                        then p1\<lparr>file_offset := unat (raw s + of_nat j * 4096) div MINALIGN\<rparr>
                        else p1);
                  p3 = p2\<lparr>flag_rwx := flag_rwx p2 OR section_flags (chr s)\<rparr>
              in map_section (v\<lparr>page_flags := (page_flags v)[page := p3]\<rparr>) s (j + 1))
      else Returns (Some v))"
  by pat_completeness auto
termination
  by (relation "measure (\<lambda>(v, s, j). unat ((vsz s + 4095) div 4096) - j)") auto

declare map_section.simps [simp del]

text \<open>
  The second loop of \<^verbatim>\<open>map_pages\<close>: the sections in order, \<open>prev\<close> the section before
  (\<open>None\<close> at the first).
\<close>

fun map_sections ::
  "emu_vmm \<Rightarrow> cli_exe_section option \<Rightarrow> cli_exe_section list \<Rightarrow> emu_vmm option outcome" where
  "map_sections v prev [] = Returns (Some v)"
| "map_sections v prev (s # ss) =
     (if (case prev of None \<Rightarrow> False | Some q \<Rightarrow> urva s - urva q \<noteq> vsz q)
      then Returns None
      else (case map_section v s 0 of
              Undefined \<Rightarrow> Undefined
            | Returns None \<Rightarrow> Returns None
            | Returns (Some v') \<Rightarrow> map_sections v' (Some s) ss))"

definition map_pages ::
  "emu_vmm \<Rightarrow> cli_pe_hook_data \<Rightarrow> cli_exe_section list \<Rightarrow> emu_vmm option outcome" where
  "map_pages v pedata sections =
     (if \<not> (Machine pedata = 0x14c \<or> Machine pedata = 0x14d \<or> Machine pedata = 0x14e)
      then Returns None
      else (case sections of
              [] \<Rightarrow> Undefined
            | s0 # _ \<Rightarrow>
                (case map_header (page_flags v) 0 (rva s0) of
                   Undefined \<Rightarrow> Undefined
                 | Returns pf \<Rightarrow> map_sections (v\<lparr>page_flags := pf\<rparr>) None sections)))"

subsection \<open>The page cache\<close>

text \<open>
  \<^verbatim>\<open>vmm_pageout(v, c, p)\<close>: \<open>c\<close> is the index of the cache slot, \<open>p\<close> the index of the
  page-table entry the caller passes.
\<close>

definition vmm_pageout :: "emu_io \<Rightarrow> emu_vmm \<Rightarrow> nat \<Rightarrow> nat \<Rightarrow> emu_vmm" where
  "vmm_pageout io v c p =
     (let e = (page_flags v ! p)\<lparr>init := True\<rparr> in
      if \<not> modified e then
        (let e1 = e\<lparr>modified := True\<rparr>;
             t = (if tmpfd v = None \<and> \<not> gentempfd_fails io then Some empty_file else tmpfd v)
         in case t of
              None \<Rightarrow> v\<lparr>page_flags := (page_flags v)[p := e1]\<rparr>
            | Some f \<Rightarrow>
                (let e2 = e1\<lparr>file_offset := tmpfd_written v mod 2 ^ 23\<rparr>;
                     n = file_offset e2 * MINALIGN
                 in v\<lparr>page_flags := (page_flags v)[p := e2],
                      tmpfd_written := (tmpfd_written v + 4096 div MINALIGN) mod 2 ^ 32,
                      tmpfd := Some (if pwrite_fails io n then f
                                     else pwrite f (data (cached v ! c)) n)\<rparr>))
      else
        (let n = file_offset e * MINALIGN
         in v\<lparr>page_flags := (page_flags v)[p := e],
              tmpfd := (case tmpfd v of
                          None \<Rightarrow> None
                        | Some f \<Rightarrow> Some (if pwrite_fails io n then f
                                            else pwrite f (data (cached v ! c)) n))\<rparr>))"

text \<open>
  \<^verbatim>\<open>vmm_pagein(v, p)\<close>: returns the index of the slot that was filled, or \<open>None\<close> for
  \<^verbatim>\<open>NULL\<close>.
\<close>

definition vmm_pagein :: "emu_io \<Rightarrow> emu_vmm \<Rightarrow> nat \<Rightarrow> nat option \<times> emu_vmm" where
  "vmm_pagein io v0 p =
     (let nextidx = cached_idx v0 + 1;
          c = cached_idx v0;
          v1 = v0\<lparr>cached_idx := (if nextidx \<ge> 15 then 0 else nextidx)\<rparr>;
          v2 = (if dirty (cached v1 ! c) then vmm_pageout io v1 c p else v1);
          e = (page_flags v2 ! p)\<lparr>cached_page_idx := cached_idx v2 + 1\<rparr>;
          s = (cached v2 ! c)\<lparr>cflag_rwx := ucast (flag_rwx e), dirty := False,
                                 loaded := Some p\<rparr>;
          v3 = v2\<lparr>page_flags := (page_flags v2)[p := e]\<rparr>
      in if \<not> init e then
           (Some c, v3\<lparr>cached := (cached v3)[c := s\<lparr>data := (\<lambda>i. 0)\<rparr>]\<rparr>)
         else
           (let off = file_offset e * MINALIGN in
            if modified e then
              (case tmpfd v3 of
                 None \<Rightarrow> (None, v3\<lparr>cached := (cached v3)[c := s]\<rparr>)
               | Some f \<Rightarrow>
                   if pread_fails io True off
                   then (None, v3\<lparr>cached := (cached v3)[c := s]\<rparr>)
                   else (Some c, v3\<lparr>cached := (cached v3)[c := s\<lparr>data := pread f (data s) off\<rparr>]\<rparr>))
            else if pread_fails io False off
              then (None, v3\<lparr>cached := (cached v3)[c := s]\<rparr>)
              else (Some c, v3\<lparr>cached := (cached v3)[c := s\<lparr>data := pread (infd v3) (data s) off\<rparr>]\<rparr>)))"

text \<open>
  \<^verbatim>\<open>vmm_cache_2page(v, va)\<close>. The test against \<open>n_pages\<close> is the C text's \<open>page > n_pages\<close>;
  an index that passes it and is not one of the table is outside the array.
\<close>

definition vmm_cache_2page ::
  "emu_io \<Rightarrow> emu_vmm \<Rightarrow> u32 \<Rightarrow> (nat option \<times> emu_vmm) outcome" where
  "vmm_cache_2page io v va =
     (let page = unat va div 4096 in
      if lastused_page v = page then Returns (Some (lastused_page_idx v), v)
      else if page > n_pages v then Returns (None, v)
      else if \<not> page < length (page_flags v) then Undefined
      else
        (let idx = cached_page_idx (page_flags v ! page) in
         if idx \<noteq> 0 then
           Returns (Some (idx - 1), v\<lparr>lastused_page := page, lastused_page_idx := idx - 1\<rparr>)
         else
           (let v1 = (if page + 1 < n_pages v then snd (vmm_pagein io v (page + 1)) else v)
            in Returns (vmm_pagein io v1 page))))"

subsection \<open>Reading and writing\<close>

text \<open>
  \<^verbatim>\<open>vmm_read(v, va, value, len, flags)\<close>: the bytes copied to \<open>value\<close>, or the error. A
  copy that runs past the 4096 bytes of \<open>data\<close> leaves the array.
\<close>

definition vmm_read ::
  "emu_io \<Rightarrow> emu_vmm \<Rightarrow> u32 \<Rightarrow> nat \<Rightarrow> byte \<Rightarrow> ((emu_err + byte list) \<times> emu_vmm) outcome" where
  "vmm_read io v va len flags =
     (case vmm_cache_2page io v va of
        Undefined \<Rightarrow> Undefined
      | Returns (None, v') \<Rightarrow> Returns (Inl EMU_ERR_VMM_READ, v')
      | Returns (Some c, v') \<Rightarrow>
          if cflag_rwx (cached v' ! c) AND flags \<noteq> 0 then
            (let off = unat (va AND 0xfff) in
             if off + len > 4096 then Undefined
             else Returns (Inr (map (\<lambda>i. data (cached v' ! c) (off + i)) [0..<len]), v'))
          else Returns (Inl EMU_ERR_VMM_READ, v'))"

definition cli_emu_vmm_read_r ::
  "emu_io \<Rightarrow> emu_vmm \<Rightarrow> u32 \<Rightarrow> nat \<Rightarrow> ((emu_err + byte list) \<times> emu_vmm) outcome" where
  "cli_emu_vmm_read_r io v va len = vmm_read io v va len (push_bit flag_r 1)"

definition cli_emu_vmm_read_x ::
  "emu_io \<Rightarrow> emu_vmm \<Rightarrow> u32 \<Rightarrow> nat \<Rightarrow> ((emu_err + byte list) \<times> emu_vmm) outcome" where
  "cli_emu_vmm_read_x io v va len = vmm_read io v va len (push_bit flag_x 1)"

text \<open>
  \<^verbatim>\<open>le16_to_host\<close> and \<^verbatim>\<open>le32_to_host\<close> of the bytes in memory order: the value with
  the first byte lowest.
\<close>

fun le_value :: "byte list \<Rightarrow> u32" where
  "le_value [] = 0"
| "le_value (b # bs) = ucast b OR push_bit 8 (le_value bs)"

text \<open>
  The typed reads return the code and store the value through a pointer; here a read
  that succeeds gives the value and one that fails gives the code.
\<close>

definition read_value ::
  "((emu_err + byte list) \<times> emu_vmm) outcome \<Rightarrow> ((emu_err + u32) \<times> emu_vmm) outcome" where
  "read_value r =
     (case r of
        Undefined \<Rightarrow> Undefined
      | Returns (Inl e, v') \<Rightarrow> Returns (Inl e, v')
      | Returns (Inr bs, v') \<Rightarrow> Returns (Inr (le_value bs), v'))"

definition cli_emu_vmm_read8 ::
  "emu_io \<Rightarrow> emu_vmm \<Rightarrow> u32 \<Rightarrow> ((emu_err + u32) \<times> emu_vmm) outcome" where
  "cli_emu_vmm_read8 io v va = read_value (vmm_read io v va 1 (push_bit flag_r 1))"

definition cli_emu_vmm_read16 ::
  "emu_io \<Rightarrow> emu_vmm \<Rightarrow> u32 \<Rightarrow> ((emu_err + u32) \<times> emu_vmm) outcome" where
  "cli_emu_vmm_read16 io v va = read_value (vmm_read io v va 2 (push_bit flag_r 1))"

definition cli_emu_vmm_read32 ::
  "emu_io \<Rightarrow> emu_vmm \<Rightarrow> u32 \<Rightarrow> ((emu_err + u32) \<times> emu_vmm) outcome" where
  "cli_emu_vmm_read32 io v va = read_value (vmm_read io v va 4 (push_bit flag_r 1))"

text \<open>
  \<^verbatim>\<open>cli_emu_vmm_write(v, va, value, len)\<close>: \<open>bs\<close> are the \<open>len\<close> bytes at \<open>value\<close>.
\<close>

definition cli_emu_vmm_write ::
  "emu_io \<Rightarrow> emu_vmm \<Rightarrow> u32 \<Rightarrow> byte list \<Rightarrow> ((emu_err + unit) \<times> emu_vmm) outcome" where
  "cli_emu_vmm_write io v va bs =
     (case vmm_cache_2page io v va of
        Undefined \<Rightarrow> Undefined
      | Returns (None, v') \<Rightarrow> Returns (Inl EMU_ERR_VMM_WRITE, v')
      | Returns (Some c, v') \<Rightarrow>
          if cflag_rwx (cached v' ! c) AND push_bit flag_w 1 \<noteq> 0 then
            (let off = unat (va AND 0xfff) in
             if off + length bs > 4096 then Undefined
             else
               let s = cached v' ! c;
                   d = (\<lambda>i. if off \<le> i \<and> i < off + length bs then bs ! (i - off) else data s i)
               in Returns (Inr (), v'\<lparr>cached := (cached v')[c := s\<lparr>data := d, dirty := True\<rparr>]\<rparr>))
          else Returns (Inl EMU_ERR_VMM_WRITE, v'))"

text \<open>
  The bytes of a 32-bit value in memory, lowest first, as on the x86 hosts the code is
  written for (the writes copy the host's representation).
\<close>

fun le_bytes :: "nat \<Rightarrow> u32 \<Rightarrow> byte list" where
  "le_bytes 0 x = []"
| "le_bytes (Suc n) x = ucast x # le_bytes n (drop_bit 8 x)"

definition cli_emu_vmm_write8 ::
  "emu_io \<Rightarrow> emu_vmm \<Rightarrow> u32 \<Rightarrow> u32 \<Rightarrow> ((emu_err + unit) \<times> emu_vmm) outcome" where
  "cli_emu_vmm_write8 io v va x = cli_emu_vmm_write io v va (le_bytes 1 x)"

definition cli_emu_vmm_write16 ::
  "emu_io \<Rightarrow> emu_vmm \<Rightarrow> u32 \<Rightarrow> u32 \<Rightarrow> ((emu_err + unit) \<times> emu_vmm) outcome" where
  "cli_emu_vmm_write16 io v va x = cli_emu_vmm_write io v va (le_bytes 2 x)"

definition cli_emu_vmm_write32 ::
  "emu_io \<Rightarrow> emu_vmm \<Rightarrow> u32 \<Rightarrow> u32 \<Rightarrow> ((emu_err + unit) \<times> emu_vmm) outcome" where
  "cli_emu_vmm_write32 io v va x = cli_emu_vmm_write io v va (le_bytes 4 x)"

subsection \<open>Protection\<close>

text \<open>
  \<^verbatim>\<open>cli_emu_vmm_prot_set\<close>: the path that assigns the bits ends without a
  \<^verbatim>\<open>return\<close>, so no value is modelled for it.
\<close>

definition cli_emu_vmm_prot_set ::
  "emu_vmm \<Rightarrow> u32 \<Rightarrow> u32 \<Rightarrow> byte \<Rightarrow> (emu_err + unit) \<times> emu_vmm" where
  "cli_emu_vmm_prot_set v va len rwx =
     (let page = unat va div 4096 in
      if page \<ge> n_pages v then (Inl EMU_ERR_GENERIC, v)
      else (Inr (), v\<lparr>page_flags := (page_flags v)[page := (page_flags v ! page)\<lparr>flag_rwx := ucast rwx\<rparr>]\<rparr>))"

definition cli_emu_vmm_prot_get :: "emu_vmm \<Rightarrow> u32 \<Rightarrow> u32 \<Rightarrow> emu_err + 3 word" where
  "cli_emu_vmm_prot_get v va len =
     (let page = unat va div 4096 in
      if page \<ge> n_pages v then Inl EMU_ERR_GENERIC
      else Inr (flag_rwx (page_flags v ! page)))"

subsection \<open>Construction\<close>

text \<open>
  \<^verbatim>\<open>cli_calloc\<close> is not part of the sources at hand: whether it returns memory is a
  parameter, for the \<^verbatim>\<open>emu_vmm_t\<close> itself and for a page table of a given number of
  entries. What it returns is zeroed.
\<close>

record emu_alloc =
  vmm_alloc_ok :: bool
  table_alloc_ok :: "nat \<Rightarrow> bool"

definition zero_page :: page_t where
  "zero_page = \<lparr>file_offset = 0, flag_rwx = 0, modified = False, init = False,
                 cached_page_idx = 0\<rparr>"

definition zero_cached :: cached_page_t where
  "zero_cached = \<lparr>cflag_rwx = 0, dirty = False, data = (\<lambda>i. 0), loaded = None\<rparr>"

definition cli_emu_vmm_new ::
  "emu_alloc \<Rightarrow> cli_pe_hook_data \<Rightarrow> cli_exe_section list \<Rightarrow> vfile \<Rightarrow> emu_vmm option outcome" where
  "cli_emu_vmm_new al pedata sections fd =
     (if Magic pedata = 0x020b then Returns None
      else if sections = [] then Returns None
      else if \<not> vmm_alloc_ok al then Returns None
      else
        (let n = unat ((rva (last sections) + vsz (last sections) + 4095) div 4096) in
         if \<not> table_alloc_ok al n then Returns None
         else
           map_pages
             \<lparr>cached = replicate 15 zero_cached, cached_idx = 0,
              lastused_page = 2 ^ 32 - 1, lastused_page_idx = 0,
              imagebase = ImageBase pedata,
              page_flags = replicate n zero_page, n_pages = n,
              infd = fd, tmpfd = None, tmpfd_written = 0\<rparr>
             pedata sections))"

subsection \<open>Sequences of calls\<close>

text \<open>
  The calls the interpreter makes on an address space, and what each gives back: a value
  read, the plain success of a write, or the error code.
\<close>

datatype vmm_call = Read8 u32 | Read16 u32 | Read32 u32
  | Write8 u32 u32 | Write16 u32 u32 | Write32 u32 u32

datatype reply = Value u32 | Done | Failed emu_err

definition read_reply :: "emu_err + u32 \<Rightarrow> reply" where
  "read_reply r = (case r of Inl e \<Rightarrow> Failed e | Inr x \<Rightarrow> Value x)"

definition write_reply :: "emu_err + unit \<Rightarrow> reply" where
  "write_reply r = (case r of Inl e \<Rightarrow> Failed e | Inr u \<Rightarrow> Done)"

fun do_call :: "emu_io \<Rightarrow> emu_vmm \<Rightarrow> vmm_call \<Rightarrow> (reply \<times> emu_vmm) outcome" where
  "do_call io v (Read8 va) =
     (case cli_emu_vmm_read8 io v va of
        Undefined \<Rightarrow> Undefined | Returns (r, v') \<Rightarrow> Returns (read_reply r, v'))"
| "do_call io v (Read16 va) =
     (case cli_emu_vmm_read16 io v va of
        Undefined \<Rightarrow> Undefined | Returns (r, v') \<Rightarrow> Returns (read_reply r, v'))"
| "do_call io v (Read32 va) =
     (case cli_emu_vmm_read32 io v va of
        Undefined \<Rightarrow> Undefined | Returns (r, v') \<Rightarrow> Returns (read_reply r, v'))"
| "do_call io v (Write8 va x) =
     (case cli_emu_vmm_write8 io v va x of
        Undefined \<Rightarrow> Undefined | Returns (r, v') \<Rightarrow> Returns (write_reply r, v'))"
| "do_call io v (Write16 va x) =
     (case cli_emu_vmm_write16 io v va x of
        Undefined \<Rightarrow> Undefined | Returns (r, v') \<Rightarrow> Returns (write_reply r, v'))"
| "do_call io v (Write32 va x) =
     (case cli_emu_vmm_write32 io v va x of
        Undefined \<Rightarrow> Undefined | Returns (r, v') \<Rightarrow> Returns (write_reply r, v'))"

text \<open>The replies of a sequence of calls, in order, and the address space after it.\<close>

fun do_calls :: "emu_io \<Rightarrow> emu_vmm \<Rightarrow> vmm_call list \<Rightarrow> (reply list \<times> emu_vmm) outcome" where
  "do_calls io v [] = Returns ([], v)"
| "do_calls io v (c # cs) =
     (case do_call io v c of
        Undefined \<Rightarrow> Undefined
      | Returns (r, v') \<Rightarrow>
          (case do_calls io v' cs of
             Undefined \<Rightarrow> Undefined
           | Returns (rs, v'') \<Rightarrow> Returns (r # rs, v'')))"

text \<open>The replies alone, and a projection of the address space after the calls.\<close>

definition replies :: "emu_io \<Rightarrow> emu_vmm \<Rightarrow> vmm_call list \<Rightarrow> reply list outcome" where
  "replies io v cs =
     (case do_calls io v cs of Undefined \<Rightarrow> Undefined | Returns (rs, v') \<Rightarrow> Returns rs)"

definition after :: "emu_io \<Rightarrow> emu_vmm \<Rightarrow> vmm_call list \<Rightarrow> (emu_vmm \<Rightarrow> 'a) \<Rightarrow> 'a outcome" where
  "after io v cs f =
     (case do_calls io v cs of Undefined \<Rightarrow> Undefined | Returns (rs, v') \<Rightarrow> Returns (f v'))"

section \<open>Example images\<close>

text \<open>An operating system on which no call fails, and one on which every \<^verbatim>\<open>pread\<close> fails.\<close>

definition io_ok :: emu_io where
  "io_ok = \<lparr>pread_fails = (\<lambda>t off. False), pwrite_fails = (\<lambda>off. False),
            gentempfd_fails = False\<rparr>"

definition io_bad :: emu_io where
  "io_bad = \<lparr>pread_fails = (\<lambda>t off. True), pwrite_fails = (\<lambda>off. False),
             gentempfd_fails = False\<rparr>"

definition al_ok :: emu_alloc where
  "al_ok = \<lparr>vmm_alloc_ok = True, table_alloc_ok = (\<lambda>n. True)\<rparr>"

text \<open>A 32-bit x86 image with image base \<open>0x400000\<close>.\<close>

definition pe32 :: cli_pe_hook_data where
  "pe32 = \<lparr>Machine = 0x14c, Magic = 0x10b, ImageBase = 0x400000\<rparr>"

text \<open>
  A file whose byte at offset \<open>0x400 + i\<close> is \<open>i\<close> (its low eight bits); the bytes before
  are \<open>0x4D\<close>.
\<close>

definition img :: vfile where
  "img = \<lparr>fsize = 0x2400, fbytes = (\<lambda>i. if i < 0x400 then 0x4D else of_nat (i - 0x400))\<rparr>"

text \<open>
  A file that tells its pages apart: from offset \<open>0x400\<close> on, the \<open>j\<close>-th block of 4096
  bytes is filled with the byte \<open>0x10 + j\<close>, so that with the sections below the page
  \<open>k \<ge> 1\<close> of the address space is backed by bytes \<open>0x0F + k\<close>.
\<close>

definition img_pages :: vfile where
  "img_pages =
     \<lparr>fsize = 0x11400,
      fbytes = (\<lambda>i. if i < 0x400 then 0x4D else of_nat (0x10 + (i - 0x400) div 4096))\<rparr>"

text \<open>One section at \<open>0x1000\<close> of size \<open>0x2000\<close>, raw offset \<open>0x400\<close>: read and execute.\<close>

definition sec_rx :: cli_exe_section where
  "sec_rx = \<lparr>rva = 0x1000, vsz = 0x2000, raw = 0x400, chr = 0x60000000, urva = 0x1000\<rparr>"

text \<open>The same section, read and write.\<close>

definition sec_rw :: cli_exe_section where
  "sec_rw = \<lparr>rva = 0x1000, vsz = 0x2000, raw = 0x400, chr = 0xC0000000, urva = 0x1000\<rparr>"

text \<open>A read and write section of 17 pages at \<open>0x1000\<close>: with the header page, 18 pages.\<close>

definition sec_big :: cli_exe_section where
  "sec_big = \<lparr>rva = 0x1000, vsz = 0x11000, raw = 0x400, chr = 0xC0000000, urva = 0x1000\<rparr>"

text \<open>A read and write section that starts in the middle of page 1.\<close>

definition sec_mid :: cli_exe_section where
  "sec_mid = \<lparr>rva = 0x1800, vsz = 0x1000, raw = 0x400, chr = 0xC0000000, urva = 0x1800\<rparr>"

text \<open>A section whose end lies beyond \<open>2^32\<close>.\<close>

definition sec_wrap :: cli_exe_section where
  "sec_wrap = \<lparr>rva = 0x1000, vsz = 0xFFFFF001, raw = 0x400, chr = 0xC0000000, urva = 0x1000\<rparr>"

text \<open>The page-table entries and the address spaces that construction yields for them.\<close>

definition header_page :: "nat \<Rightarrow> page_t" where
  "header_page i = \<lparr>file_offset = 8 * i, flag_rwx = 1, modified = False, init = False,
                     cached_page_idx = 0\<rparr>"

definition file_page :: "nat \<Rightarrow> 3 word \<Rightarrow> page_t" where
  "file_page off fl = \<lparr>file_offset = off, flag_rwx = fl, modified = False, init = True,
                        cached_page_idx = 0\<rparr>"

definition fresh :: "page_t list \<Rightarrow> vfile \<Rightarrow> emu_vmm" where
  "fresh pf fd =
     \<lparr>cached = replicate 15 zero_cached, cached_idx = 0,
      lastused_page = 2 ^ 32 - 1, lastused_page_idx = 0,
      imagebase = 0x400000, page_flags = pf, n_pages = length pf,
      infd = fd, tmpfd = None, tmpfd_written = 0\<rparr>"

definition v_rx :: emu_vmm where
  "v_rx = fresh [header_page 0, file_page 2 5, file_page 10 5] img"

definition v_rw :: emu_vmm where
  "v_rw = fresh [header_page 0, file_page 2 3, file_page 10 3] img_pages"

definition v_big :: emu_vmm where
  "v_big = fresh (header_page 0 # map (\<lambda>j. file_page (2 + 8 * j) 3) [0..<17]) img_pages"

definition v_mid :: emu_vmm where
  "v_mid = fresh [header_page 0, file_page 2 3, zero_page] img"

definition v_wrap :: emu_vmm where
  "v_wrap = fresh [header_page 0] img"

section \<open>Evaluation\<close>

lemma replicate_15: "replicate 15 x = [x, x, x, x, x, x, x, x, x, x, x, x, x, x, x]"
  by (simp add: numeral_eq_Suc)

lemma replicate_18:
  "replicate 18 x = [x, x, x, x, x, x, x, x, x, x, x, x, x, x, x, x, x, x]"
  by (simp add: numeral_eq_Suc)

lemma replicate_3: "replicate 3 x = [x, x, x]"
  by (simp add: numeral_eq_Suc)

lemma upt_small:
  "[0..<1] = [0]" "[0..<2] = [0, 1]" "[0..<4] = [0, 1, 2, 3]"
  "[0..<17] = [0, 1, 2, 3, 4, 5, 6, 7, 8, 9, 10, 11, 12, 13, 14, 15, 16]"
  by (simp_all add: upt_rec)

lemmas examples = io_ok_def io_bad_def al_ok_def pe32_def img_def img_pages_def
  sec_rx_def sec_rw_def sec_big_def sec_mid_def sec_wrap_def header_page_def file_page_def
  fresh_def v_rx_def v_rw_def v_big_def v_mid_def v_wrap_def zero_page_def zero_cached_def

lemmas cdefs = MINALIGN_def flag_r_def flag_w_def flag_x_def section_flags_def
  IMAGE_SCN_CNT_UNINITIALIZED_DATA_def IMAGE_SCN_MEM_EXECUTE_def IMAGE_SCN_MEM_READ_def
  IMAGE_SCN_MEM_WRITE_def

lemmas build = cli_emu_vmm_new_def map_pages_def map_header.simps map_section.simps Let_def
  replicate_3 replicate_18 upt_small

lemmas ops = vmm_cache_2page_def vmm_pagein_def vmm_pageout_def vmm_read_def
  cli_emu_vmm_write_def cli_emu_vmm_read8_def cli_emu_vmm_read16_def cli_emu_vmm_read32_def
  read_value_def cli_emu_vmm_write8_def cli_emu_vmm_write16_def cli_emu_vmm_write32_def
  cli_emu_vmm_prot_get_def
  read_reply_def write_reply_def pread_def pwrite_def empty_file_def Let_def
  replies_def after_def replicate_15 upt_small

text \<open>What construction returns for the example images.\<close>

lemma new_rx: "cli_emu_vmm_new al_ok pe32 [sec_rx] img = Returns (Some v_rx)"
  by (simp add: examples cdefs build)

lemma new_rw: "cli_emu_vmm_new al_ok pe32 [sec_rw] img_pages = Returns (Some v_rw)"
  by (simp add: examples cdefs build)

lemma new_big: "cli_emu_vmm_new al_ok pe32 [sec_big] img_pages = Returns (Some v_big)"
  by (simp add: examples cdefs build)



section \<open>What the operations leave alone\<close>

lemma vmm_pageout_frame:
  "length (page_flags (vmm_pageout io v c p)) = length (page_flags v)"
  "n_pages (vmm_pageout io v c p) = n_pages v"
  "lastused_page (vmm_pageout io v c p) = lastused_page v"
  "cached_idx (vmm_pageout io v c p) = cached_idx v"
  "cached (vmm_pageout io v c p) = cached v"
  by (simp_all add: vmm_pageout_def Let_def split: option.split)

lemma vmm_pagein_frame:
  "length (page_flags (snd (vmm_pagein io v p))) = length (page_flags v)"
  "n_pages (snd (vmm_pagein io v p)) = n_pages v"
  "lastused_page (snd (vmm_pagein io v p)) = lastused_page v"
  "cached_idx (snd (vmm_pagein io v p)) = (if cached_idx v + 1 \<ge> 15 then 0 else cached_idx v + 1)"
  by (simp_all add: vmm_pagein_def Let_def vmm_pageout_frame split: option.split)

lemma vmm_pagein_entry:
  "p < length (page_flags v) \<Longrightarrow>
   cached_page_idx (page_flags (snd (vmm_pagein io v p)) ! p) = cached_idx (snd (vmm_pagein io v p)) + 1"
  by (simp add: vmm_pagein_def Let_def vmm_pageout_frame split: option.split)

text \<open>
  The slot \<^verbatim>\<open>vmm_pagein\<close> fills is the one \<open>cached_idx\<close> named on entry; the slot its
  page-table entry names afterwards is the next one in the round.
\<close>

lemma vmm_pagein_slot:
  "fst (vmm_pagein io v p) = Some c \<Longrightarrow> c = cached_idx v"
  by (auto simp add: vmm_pagein_def Let_def split: option.splits if_splits)

lemma vmm_pagein_names_next_slot:
  assumes "p < length (page_flags v)" and "cached_idx v < 15"
  shows "cached_page_idx (page_flags (snd (vmm_pagein io v p)) ! p) - 1 = (cached_idx v + 1) mod 15"
proof -
  have "(if 15 \<le> cached_idx v + 1 then 0 else cached_idx v + 1) = (cached_idx v + 1) mod 15"
    using assms(2) by (cases "cached_idx v = 14") simp_all
  with vmm_pagein_entry [OF assms(1), of io] show ?thesis
    by (simp add: vmm_pagein_frame)
qed

section \<open>What the mapping loops write\<close>







section \<open>The claims\<close>

subsection \<open>C1: a write followed by a read of the same address\<close>

text \<open>
  C1 says that on a page with the read and the write bit a successful write of a value,
  followed by a read of the same width at the same address, returns the value, whichever
  way the addresses are resolved. The code does not do that. \<^verbatim>\<open>vmm_pagein\<close> fills the
  slot \<open>cached_idx\<close> had on entry, but records in the page table the value of
  \<open>cached_idx\<close> after its increment, plus one: the entry names the slot after the one
  that holds the page. On the freshly built address space with one read and write section,
  the write of \<open>0x5A\<close> at \<open>0x1000\<close> faults the page in and succeeds; the read of the same
  address is resolved through the page table to the next slot, which is still empty and
  has no permission bit, and fails.
\<close>

theorem C1_write_then_read_fails:
  "cli_emu_vmm_new al_ok pe32 [sec_rw] img_pages = Returns (Some v_rw) \<and>
   cli_emu_vmm_prot_get v_rw 0x1000 1 = Inr (push_bit flag_r 1 OR push_bit flag_w 1) \<and>
   replies io_ok v_rw [Write8 0x1000 0x5A, Read8 0x1000] =
     Returns [Done, Failed EMU_ERR_VMM_READ]"
  by (simp add: new_rw) (simp add: examples cdefs ops)

subsection \<open>C2: eviction of a written page\<close>

text \<open>
  C2 says that the sixteenth page faulted in evicts the first, that the buffer of a written
  victim is persisted to the scratch file under the victim's page-table entry (its
  \<open>modified\<close> flag set, a fresh offset assigned), and that a later fault of the victim
  returns what was written. The code calls \<^verbatim>\<open>vmm_pageout(v, c, p)\<close> with \<open>p\<close> the entry
  of the page being brought in, not of the page being evicted. Below, page 17 is written
  first (it is the last page, so it is faulted in alone, into slot 0), then seven reads
  fault in fourteen more pages. The next read faults in page 16 over slot 0: the written
  buffer goes to the scratch file at offset 0, but it is page 16 whose entry becomes
  \<open>modified\<close> with that offset, so page 16 now reads as page 17's written bytes, while the
  entry of page 17 is untouched: not \<open>modified\<close>, and still naming a cache slot, so it is
  never faulted in again. The last read, at the written address, returns the byte of
  page 15, neither the written \<open>0x5A\<close> nor the file's \<open>0x20\<close>.
\<close>

theorem C2_eviction_of_a_written_page:
  "cli_emu_vmm_new al_ok pe32 [sec_big] img_pages = Returns (Some v_big) \<and>
   after io_ok v_big
     [Write8 0x11000 0x5A, Read8 0x1000, Read8 0x3000, Read8 0x5000, Read8 0x7000,
      Read8 0x9000, Read8 0xB000, Read8 0xD000]
     (\<lambda>v. (map loaded (cached v), dirty (cached v ! 0), cached_idx v)) =
     Returns ([Some 17, Some 2, Some 1, Some 4, Some 3, Some 6, Some 5, Some 8, Some 7,
               Some 10, Some 9, Some 12, Some 11, Some 14, Some 13], True, 0) \<and>
   after io_ok v_big
     [Write8 0x11000 0x5A, Read8 0x1000, Read8 0x3000, Read8 0x5000, Read8 0x7000,
      Read8 0x9000, Read8 0xB000, Read8 0xD000, Read8 0xF000]
     (\<lambda>v. (loaded (cached v ! 0), map_option (\<lambda>f. fbytes f 0) (tmpfd v), tmpfd_written v,
           modified (page_flags v ! 17), cached_page_idx (page_flags v ! 17),
           modified (page_flags v ! 16), file_offset (page_flags v ! 16))) =
     Returns (Some 16, Some 0x5A, 8, False, 2, True, 0) \<and>
   replies io_ok v_big
     [Write8 0x11000 0x5A, Read8 0x1000, Read8 0x3000, Read8 0x5000, Read8 0x7000,
      Read8 0x9000, Read8 0xB000, Read8 0xD000, Read8 0xF000, Read8 0x11000] =
     Returns [Done, Value 0x10, Value 0x12, Value 0x14, Value 0x16, Value 0x18, Value 0x1A,
              Value 0x1C, Value 0x1E, Value 0x1E]"
  by (simp add: new_big) (simp add: examples cdefs ops)

subsection \<open>C3: accesses at or beyond the mapped extent\<close>

text \<open>
  C3 says that every operation at an address \<open>a \<ge> n_pages * 4096\<close> fails as out of
  bounds. \<^verbatim>\<open>cli_emu_vmm_prot_get\<close> and \<^verbatim>\<open>cli_emu_vmm_prot_set\<close> test \<open>page >= n_pages\<close>,
  but \<^verbatim>\<open>vmm_cache_2page\<close>, through which every read and write goes, tests
  \<open>page > n_pages\<close>: at the first address beyond the extent (here \<open>0x3000\<close> with three
  pages) a read or a write indexes the page table at \<open>n_pages\<close>, one past its end.
  One page further the accesses fail as claimed.
\<close>

theorem C3_access_at_the_extent:
  "cli_emu_vmm_new al_ok pe32 [sec_rx] img = Returns (Some v_rx) \<and>
   n_pages v_rx * 4096 = 0x3000 \<and>
   replies io_ok v_rx [Read8 0x3000] = Undefined \<and>
   replies io_ok v_rx [Write8 0x3000 1] = Undefined \<and>
   replies io_ok v_rx [Read8 0x4000] = Returns [Failed EMU_ERR_VMM_READ] \<and>
   cli_emu_vmm_prot_get v_rx 0x3000 1 = Inl EMU_ERR_GENERIC"
  by (simp add: new_rx) (simp add: examples cdefs ops)

subsection \<open>C4: a failed read of the backing store\<close>


text \<open>
  A failed \<^verbatim>\<open>pread\<close> is the only way \<^verbatim>\<open>vmm_pagein\<close> returns \<^verbatim>\<open>NULL\<close>
  (a \<^verbatim>\<open>pread\<close> on the descriptor \<open>-1\<close> fails too).
\<close>

lemma vmm_pagein_NULL:
  "fst (vmm_pagein io v p) = None \<Longrightarrow>
   (\<exists>t off. pread_fails io t off) \<or> tmpfd (snd (vmm_pagein io v p)) = None"
  by (auto simp add: vmm_pagein_def Let_def split: option.splits if_splits)



subsection \<open>C5: a page in at most one slot\<close>

text \<open>
  C5 says that no two cache slots hold the same page, and that the fault-in of the adjacent
  page never loads a page that is resident. \<^verbatim>\<open>vmm_cache_2page\<close> calls \<^verbatim>\<open>vmm_pagein\<close> for
  \<open>page + 1\<close> whenever \<open>page + 1 < n_pages\<close>, with no look at its \<open>cached_page_idx\<close>.
  After a write to page 1 (slots 0 and 1 hold pages 2 and 1, slot 1 dirty), a read of
  page 0 loads page 1 again, into slot 2.
\<close>

theorem C5_page_in_two_slots:
  "cli_emu_vmm_new al_ok pe32 [sec_rw] img_pages = Returns (Some v_rw) \<and>
   after io_ok v_rw [Write8 0x1000 0x5A] (\<lambda>v. take 4 (map loaded (cached v))) =
     Returns [Some 2, Some 1, None, None] \<and>
   after io_ok v_rw [Write8 0x1000 0x5A, Read8 0] (\<lambda>v. take 4 (map loaded (cached v))) =
     Returns [Some 2, Some 1, Some 1, Some 0]"
  by (simp add: new_rw) (simp add: examples cdefs ops)

subsection \<open>C6: a write to a page without the write bit\<close>

text \<open>
  C6 says that a write to a page without the write bit is refused and changes no page.
  Page 0 is the header page, mapped with the read bit only. Its page-table entry names the
  slot after its own (see C1); once a read of page 2 has filled that slot, which takes the
  permissions of page 2, the write to page 0 goes through, and the next read of page 0
  returns the written byte.
\<close>

theorem C6_write_to_read_only_page:
  "cli_emu_vmm_new al_ok pe32 [sec_rw] img_pages = Returns (Some v_rw) \<and>
   cli_emu_vmm_prot_get v_rw 0 1 = Inr (push_bit flag_r 1) \<and>
   replies io_ok v_rw [Read8 0, Read8 0x2000, Write8 0 0x5A, Read8 0] =
     Returns [Value 0, Value 0x11, Done, Value 0x5A]"
  by (simp add: new_rw) (simp add: examples cdefs ops)

subsection \<open>C7: the scenario with image base 0x400000\<close>

text \<open>
  C7 as stated fails: no operation subtracts the image base from an address (the image
  base is stored and logged, nothing else), so \<open>0x401000\<close> is page \<open>0x401\<close> of a table of
  three pages, and the read fails.
\<close>

theorem C7_counterexample:
  "cli_emu_vmm_new al_ok pe32 [sec_rx] img = Returns (Some v_rx) \<and>
   replies io_ok v_rx [Read32 0x401000] = Returns [Failed EMU_ERR_VMM_READ]"
  by (simp add: new_rx) (simp add: examples cdefs ops)

text \<open>
  C7, amended: addresses are offsets from the image base. In the address space built for
  the scenario, a 32-bit read at \<open>0x1000\<close> returns the little-endian value of the file's
  bytes \<open>0x400\<close> to \<open>0x403\<close>, and a write of a byte at \<open>0x1000\<close> fails with
  \<open>EMU_ERR_VMM_WRITE\<close>.
\<close>

theorem C7_scenario_at_relative_address:
  "cli_emu_vmm_new al_ok pe32 [sec_rx] img = Returns (Some v_rx) \<and>
   replies io_ok v_rx [Read32 0x1000] =
     Returns [Value (le_value (map (fbytes img) [0x400, 0x401, 0x402, 0x403]))] \<and>
   replies io_ok v_rx [Write8 0x1000 x] = Returns [Failed EMU_ERR_VMM_WRITE]"
  by (simp add: new_rx) (simp add: examples cdefs ops)

subsection \<open>C8: the pages of the file header\<close>




subsection \<open>C9: the error values\<close>

text \<open>
  C9 as stated fails: a write beyond the table, a write to a page without the write bit and
  a write whose \<^verbatim>\<open>pread\<close> fails all return the same value.
\<close>

theorem C9_counterexample:
  "replies io_ok v_rx [Write8 0x401000 1] = Returns [Failed EMU_ERR_VMM_WRITE] \<and>
   replies io_ok v_rx [Write8 0x1000 1] = Returns [Failed EMU_ERR_VMM_WRITE] \<and>
   replies io_bad v_rw [Write8 0x1000 1] = Returns [Failed EMU_ERR_VMM_WRITE]"
  by (simp add: examples cdefs ops)

text \<open>
  C9, amended: the error value tells the operation, not the cause. Every read that returns
  an error returns \<open>EMU_ERR_VMM_READ\<close>, and every write that returns an error returns
  \<open>EMU_ERR_VMM_WRITE\<close>.
\<close>

theorem C9_one_code_per_operation:
  "(vmm_read io v va len flags = Returns (Inl e, v') \<longrightarrow> e = EMU_ERR_VMM_READ) \<and>
   (cli_emu_vmm_write io v va bs = Returns (Inl e', v'') \<longrightarrow> e' = EMU_ERR_VMM_WRITE)"
  by (auto simp add: vmm_read_def cli_emu_vmm_write_def Let_def
      split: outcome.splits option.splits prod.splits if_splits)

theorem C9_witness:
  "vmm_read io_ok v_rx 0x401000 1 (push_bit flag_r 1) = Returns (Inl EMU_ERR_VMM_READ, v_rx) \<and>
   cli_emu_vmm_write io_ok v_rx 0x401000 [1] = Returns (Inl EMU_ERR_VMM_WRITE, v_rx)"
proof -
  obtain e where r: "vmm_read io_ok v_rx 0x401000 1 (push_bit flag_r 1) = Returns (Inl e, v_rx)"
    by (simp add: examples cdefs ops)
  obtain e' where w: "cli_emu_vmm_write io_ok v_rx 0x401000 [1] = Returns (Inl e', v_rx)"
    by (simp add: examples cdefs ops)
  from C9_one_code_per_operation [of io_ok v_rx "0x401000" 1 "push_bit flag_r 1" e v_rx "[1]" e' v_rx]
    r w
  show ?thesis by simp
qed

subsection \<open>C10: the number of pages\<close>




end
